theory Spec2Isabelle
  imports Complex_Main
begin

section \<open>Errors\<close>

text \<open>
  The attribute names \<^verbatim>\<open>f'mapping_{i}'\<close> and \<^verbatim>\<open>f'mapping_patch_{i}'\<close> under which
  the adapter registers and looks up its branches. The two name families never collide
  and the decimal rendering of \<open>i\<close> is injective, so a name is its family and its index.
\<close>

datatype attr = mapping nat | mapping_patch nat

text \<open>
  The exceptions that the modelled code can raise: a failed \<^verbatim>\<open>getattr\<close>, a call with a
  keyword argument the callee does not accept, a shape error of the tensor library, a
  sequence index out of range, and Python's division by zero.
\<close>

datatype error =
    AttributeError attr
  | TypeError string
  | RuntimeError
  | IndexError
  | ZeroDivisionError

section \<open>The multi-token adapter (models/adapters.py)\<close>

subsection \<open>Tensors of rank three\<close>

text \<open>
  An embedding of shape (batch, sequence position, width) is a list (batch) of lists
  (positions) of vectors. The scalar type \<open>'s\<close> and its two operations, addition and the
  mean of a list of scalars, are those of the tensor library: they are parameters, so
  nothing is assumed about rounding, or about the mean of no scalars at all.
\<close>

type_synonym 's tensor3 = "'s list list list"

record 's scalar_ops =
  add :: "'s \<Rightarrow> 's \<Rightarrow> 's"
  mean :: "'s list \<Rightarrow> 's"

text \<open>\<^verbatim>\<open>emb[:, :1]\<close> and \<^verbatim>\<open>emb[:, 1:]\<close>.\<close>

definition slice_cls :: "'s tensor3 \<Rightarrow> 's tensor3" where
  "slice_cls emb = map (take 1) emb"

definition slice_patches :: "'s tensor3 \<Rightarrow> 's tensor3" where
  "slice_patches emb = map (drop 1) emb"

text \<open>
  \<^verbatim>\<open>t.mean(dim=1, keepdim=True)\<close> for a tensor \<open>t\<close> of shape (batch, positions, d): one
  position is left, whose \<open>j\<close>-th entry is the mean of the \<open>j\<close>-th entries of all
  positions. Nested lists do not record \<open>d\<close> when there is no position, so it is passed.
\<close>

definition mean_dim1 :: "'s scalar_ops \<Rightarrow> nat \<Rightarrow> 's tensor3 \<Rightarrow> 's tensor3" where
  "mean_dim1 ops d t =
     map (\<lambda>rows. [map (\<lambda>j. mean ops (map (\<lambda>v. v ! j) rows)) [0..<d]]) t"

text \<open>Entrywise \<^verbatim>\<open>+\<close> of two tensors of one shape (no broadcasting is modelled).\<close>

definition tensor_add :: "'s scalar_ops \<Rightarrow> 's tensor3 \<Rightarrow> 's tensor3 \<Rightarrow> 's tensor3" where
  "tensor_add ops x y = map2 (map2 (map2 (add ops))) x y"

text \<open>
  \<^verbatim>\<open>torch.cat(ts, dim=1)\<close>: the library refuses an empty sequence of tensors and
  tensors whose batch sizes differ; otherwise the positions of all tensors are put one
  after the other, batch element by batch element.
\<close>

definition cat_dim1 :: "'s tensor3 list \<Rightarrow> error + 's tensor3" where
  "cat_dim1 ts =
     (case ts of
        [] \<Rightarrow> Inl RuntimeError
      | t # _ \<Rightarrow>
          if list_all (\<lambda>u. length u = length t) ts
          then Inr (map (\<lambda>b. concat (map (\<lambda>u. u ! b) ts)) [0..<length t])
          else Inl RuntimeError)"

subsection \<open>Branches\<close>

text \<open>
  One \<^verbatim>\<open>nn.Sequential(Linear(clip_embedding_dim, 1024), LayerNorm, LeakyReLU,
  Linear(1024, 1024), LayerNorm, LeakyReLU, Linear(1024, cross_attention_dim))\<close>. Every
  layer of it acts on the last axis only, so the branch is a function \<open>net\<close> on vectors,
  applied at every position of every batch element; its first layer refuses vectors
  that are not \<open>in_features\<close> wide.
\<close>

record 's branch =
  in_features :: nat
  out_features :: nat
  net :: "'s list \<Rightarrow> 's list"

definition call_branch :: "'s branch \<Rightarrow> 's tensor3 \<Rightarrow> error + 's tensor3" where
  "call_branch br t =
     (if list_all (list_all (\<lambda>v. length v = in_features br)) t
      then Inr (map (map (net br)) t)
      else Inl RuntimeError)"

subsection \<open>PhotoVerseAdapter\<close>

text \<open>
  The module is the table of its registered attributes. \<^verbatim>\<open>__init__\<close> registers, for
  every \<open>i\<close> below \<open>num_tokens\<close>, a branch \<^verbatim>\<open>mapping_i\<close> and a branch
  \<^verbatim>\<open>mapping_patch_i\<close>; \<open>init\<close> gives the freshly initialised network of each name.
\<close>

type_synonym 's adapter = "attr \<rightharpoonup> 's branch"

definition new_branch :: "nat \<Rightarrow> nat \<Rightarrow> ('s list \<Rightarrow> 's list) \<Rightarrow> 's branch" where
  "new_branch clip_embedding_dim cross_attention_dim f =
     \<lparr>in_features = clip_embedding_dim, out_features = cross_attention_dim, net = f\<rparr>"

definition PhotoVerseAdapter ::
  "(attr \<Rightarrow> 's list \<Rightarrow> 's list) \<Rightarrow> nat \<Rightarrow> nat \<Rightarrow> nat \<Rightarrow> 's adapter" where
  "PhotoVerseAdapter init clip_embedding_dim cross_attention_dim num_tokens =
     fold (\<lambda>i self.
             self(mapping i \<mapsto> new_branch clip_embedding_dim cross_attention_dim (init (mapping i)),
                  mapping_patch i \<mapsto>
                    new_branch clip_embedding_dim cross_attention_dim (init (mapping_patch i))))
          [0..<num_tokens] Map.empty"

text \<open>
  \<^verbatim>\<open>forward\<close>: the loop over \<^verbatim>\<open>enumerate(embs)\<close>, with the index \<open>i\<close> and the tuple
  \<open>hidden_states\<close> built so far. Python evaluates the left summand first: the lookup of
  \<^verbatim>\<open>mapping_i\<close> and its call, then the lookup of \<^verbatim>\<open>mapping_patch_i\<close>, its call and
  the mean.
\<close>

fun forward_loop ::
  "'s scalar_ops \<Rightarrow> 's adapter \<Rightarrow> nat \<Rightarrow> 's tensor3 list \<Rightarrow> 's tensor3 list
     \<Rightarrow> error + 's tensor3 list" where
  "forward_loop ops self i [] hidden_states = Inr hidden_states"
| "forward_loop ops self i (emb # embs) hidden_states =
     (case self (mapping i) of
        None \<Rightarrow> Inl (AttributeError (mapping i))
      | Some g \<Rightarrow>
     (case call_branch g (slice_cls emb) of
        Inl e \<Rightarrow> Inl e
      | Inr x \<Rightarrow>
     (case self (mapping_patch i) of
        None \<Rightarrow> Inl (AttributeError (mapping_patch i))
      | Some p \<Rightarrow>
     (case call_branch p (slice_patches emb) of
        Inl e \<Rightarrow> Inl e
      | Inr y \<Rightarrow>
          forward_loop ops self (Suc i) embs
            (hidden_states @ [tensor_add ops x (mean_dim1 ops (out_features p) y)])))))"

definition forward :: "'s scalar_ops \<Rightarrow> 's adapter \<Rightarrow> 's tensor3 list \<Rightarrow> error + 's tensor3" where
  "forward ops self embs =
     (case forward_loop ops self 0 embs [] of
        Inl e \<Rightarrow> Inl e
      | Inr hidden_states \<Rightarrow> cat_dim1 hidden_states)"

text \<open>
  Calling the module: \<^verbatim>\<open>nn.Module.__call__\<close> hands its positional and keyword
  arguments to \<^verbatim>\<open>forward(self, embs)\<close>, which has no parameter besides \<open>embs\<close>, so
  Python refuses the first keyword argument it is given.
\<close>

definition adapter_call ::
  "'s scalar_ops \<Rightarrow> 's adapter \<Rightarrow> 's tensor3 list \<Rightarrow> (string \<times> int) list \<Rightarrow> error + 's tensor3" where
  "adapter_call ops self embs kwargs =
     (case kwargs of
        [] \<Rightarrow> forward ops self embs
      | (name, _) # _ \<Rightarrow> Inl (TypeError name))"

section \<open>Loading a checkpoint (models/modeling_utils.py)\<close>







section \<open>The sampling loop (models/infer.py)\<close>

subsection \<open>The collaborators\<close>

text \<open>
  \<open>'e\<close> is the type of embedding tensors (hidden states of the encoders, adapter
  tokens), \<open>'l\<close> the type of pixel and latent tensors of one shape, \<open>'g\<close> the state of
  the random number generator and \<open>'sch\<close> a scheduler object. Token ids are rows of
  integers, one row per batch element. Python floats are real numbers. The arithmetic
  on tensors and on floats is that of the tensor library and of Python: its operations
  are parameters, so nothing is assumed about rounding. Moving a tensor to a device,
  detaching it and cloning it do not change its value and are left out.
\<close>

type_synonym ids = "int list list"

record 'l example =
  pixel_values :: 'l
  pixel_values_clip :: 'l
  text_input_ids :: ids
  concept_placeholder_idx :: "int list"
  negative_text_input_ids :: "ids option"

text \<open>
  The tokenizer, called as \<^verbatim>\<open>tokenizer(texts, padding=..., max_length=...,
  return_tensors="pt").input_ids\<close>.
\<close>

record tokenizer =
  model_max_length :: nat
  tokenize :: "string list \<Rightarrow> string \<Rightarrow> nat \<Rightarrow> ids"

text \<open>
  The vision encoder with \<^verbatim>\<open>output_hidden_states=True\<close> returns the last hidden
  state, the pooled output and the tuple of all hidden states (indices 0, 1, 2).
\<close>

type_synonym ('e, 'l) image_encoder = "'l \<Rightarrow> 'e \<times> 'e \<times> 'e list"

text \<open>
  The patched text encoder takes a dictionary: the token ids and, when given, the
  concept embeddings with the placeholder positions. The result is its entry 0.
\<close>

type_synonym 'e text_encoder = "ids \<Rightarrow> ('e \<times> int list) option \<Rightarrow> 'e"

text \<open>
  \<^verbatim>\<open>unet(x, t, encoder_hidden_states=(text, image)).sample\<close> and
  \<^verbatim>\<open>unet.config.in_channels\<close>.
\<close>

record ('e, 'l) unet =
  in_channels :: nat
  predict :: "'l \<Rightarrow> int \<Rightarrow> 'e \<times> 'e \<Rightarrow> 'l"

text \<open>An adapter is called with the list of embeddings and keyword arguments.\<close>

type_synonym 'e adapter_module = "'e list \<Rightarrow> (string \<times> int) list \<Rightarrow> error + 'e"

text \<open>
  \<^verbatim>\<open>vae.encode(x).latent_dist.sample()\<close> draws from the generator;
  \<^verbatim>\<open>vae.decode(z).sample\<close> and \<^verbatim>\<open>vae.config.scaling_factor\<close>.
\<close>

record ('l, 'g) vae =
  encode_sample :: "'l \<Rightarrow> 'g \<Rightarrow> 'l \<times> 'g"
  scaling_factor :: real
  decode :: "'l \<Rightarrow> 'l"

text \<open>
  The scheduler class of the library: \<open>from_config s\<close> is
  \<^verbatim>\<open>DPMSolverMultistepScheduler.from_config(s.config)\<close>; \<open>step\<close> returns the previous
  sample and the scheduler with its updated history.
\<close>

record ('l, 'sch) scheduler_api =
  from_config :: "'sch \<Rightarrow> 'sch"
  set_timesteps :: "nat \<Rightarrow> 'sch \<Rightarrow> 'sch"
  timesteps_of :: "'sch \<Rightarrow> int list"
  init_noise_sigma :: "'sch \<Rightarrow> real"
  add_noise :: "'sch \<Rightarrow> 'l \<Rightarrow> 'l \<Rightarrow> int list \<Rightarrow> 'l"
  scale_model_input :: "'sch \<Rightarrow> 'l \<Rightarrow> int \<Rightarrow> 'l"
  step :: "'sch \<Rightarrow> 'l \<Rightarrow> int \<Rightarrow> 'l \<Rightarrow> 'l \<times> 'sch"

text \<open>
  The tensor library: \<^verbatim>\<open>torch.manual_seed\<close> sets the state of the global generator
  (and returns that generator), \<^verbatim>\<open>torch.randn\<close> draws a tensor of the given shape
  from the generator and advances it, \<open>shape0\<close> is \<^verbatim>\<open>.shape[0]\<close>. The arithmetic:
  \<open>tadd\<close> and \<open>tsub\<close> are \<^verbatim>\<open>+\<close> and \<^verbatim>\<open>-\<close> of two tensors, \<open>smul\<close> is \<^verbatim>\<open>*\<close> of a
  Python number and a tensor, and \<open>float_div\<close> is \<^verbatim>\<open>/\<close> of two Python floats, the
  second of which is not zero.
\<close>

record ('l, 'g) torch =
  manual_seed :: "int \<Rightarrow> 'g"
  randn :: "nat list \<Rightarrow> 'g \<Rightarrow> 'l \<times> 'g"
  zeros_like :: "'l \<Rightarrow> 'l"
  shape0 :: "'l \<Rightarrow> nat"
  clamp :: "real \<Rightarrow> real \<Rightarrow> 'l \<Rightarrow> 'l"
  tadd :: "'l \<Rightarrow> 'l \<Rightarrow> 'l"
  tsub :: "'l \<Rightarrow> 'l \<Rightarrow> 'l"
  smul :: "real \<Rightarrow> 'l \<Rightarrow> 'l"
  float_div :: "real \<Rightarrow> real \<Rightarrow> real"

text \<open>The parameters of \<^verbatim>\<open>run_inference\<close>, under their names.\<close>

record ('e, 'l, 'g, 'sch) inference_args =
  example :: "'l example"
  tokenizer :: tokenizer
  image_encoder :: "('e, 'l) image_encoder"
  text_encoder :: "'e text_encoder"
  unet :: "('e, 'l) unet"
  text_adapter :: "'e adapter_module"
  image_adapter :: "'e adapter_module"
  vae :: "('l, 'g) vae"
  scheduler :: 'sch
  image_encoder_layers_idx :: "int list"
  latent_size :: nat
  guidance_scale :: real
  timesteps :: nat
  token_index :: int
  seed :: "int option"
  from_noised_image :: bool
  training_mode :: bool

subsection \<open>What a run does to its collaborators\<close>

text \<open>
  The trace of a run, in order: every call of an adapter and of the text encoder with
  its arguments, every entry into \<^verbatim>\<open>with torch.set_grad_enabled(flag)\<close> with the flag,
  and every evaluation of the U-Net with the latent input, the timestep, the pair of
  encoder hidden states and the prediction that the evaluation returns.
\<close>

datatype ('e, 'l) event =
    TextAdapterCall "'e list"
  | ImageAdapterCall "'e list"
  | TextEncoderCall ids "('e \<times> int list) option"
  | SetGradEnabled bool
  | UNetCall 'l int "'e \<times> 'e" 'l

subsection \<open>run_inference\<close>

text \<open>Lines 43 to 49: the unconditional input ids.\<close>

definition uncond_ids :: "('l, 'g) torch \<Rightarrow> ('e, 'l, 'g, 'sch) inference_args \<Rightarrow> ids" where
  "uncond_ids T a =
     (case negative_text_input_ids (example a) of
        None \<Rightarrow>
          tokenize (tokenizer a) (replicate (shape0 T (pixel_values (example a))) [])
            ''max_length'' (model_max_length (tokenizer a))
      | Some uncond_input_ids \<Rightarrow> uncond_input_ids)"

text \<open>Lines 52 to 59: the noise, from the ambient generator \<open>g\<close> or from the seed.\<close>

definition make_noise ::
  "('l, 'g) torch \<Rightarrow> ('e, 'l, 'g, 'sch) inference_args \<Rightarrow> 'g \<Rightarrow> 'l \<times> 'g" where
  "make_noise T a g =
     (let shape = [shape0 T (pixel_values (example a)), in_channels (unet a),
                   latent_size a, latent_size a]
      in case seed a of
           None \<Rightarrow> randn T shape g
         | Some s \<Rightarrow> randn T shape (manual_seed T s))"

text \<open>Lines 62 to 70: the initial latents.\<close>

definition initial_latents ::
  "('l, 'g) torch \<Rightarrow> ('l, 'sch) scheduler_api \<Rightarrow> ('e, 'l, 'g, 'sch) inference_args
     \<Rightarrow> 'sch \<Rightarrow> 'g \<Rightarrow> 'l" where
  "initial_latents T api a sched g =
     (case make_noise T a g of (noise, g') \<Rightarrow>
        let latents =
              (if from_noised_image a
               then (case encode_sample (vae a) (pixel_values (example a)) g' of (z, _) \<Rightarrow>
                       let latents = smul T (scaling_factor (vae a)) z
                       in add_noise api sched latents noise
                            (concat (replicate (shape0 T latents) (take 1 (timesteps_of api sched)))))
               else noise)
        in smul T (init_noise_sigma api sched) latents)"

text \<open>
  Lines 80 to 84. Indexing a tuple with a Python integer: a negative index counts from
  the end, and an index outside of the tuple raises; \<open>py_nth\<close> is the element read
  when it does not.
\<close>

definition py_nth :: "'a list \<Rightarrow> int \<Rightarrow> 'a" where
  "py_nth xs i = xs ! nat (if i < 0 then int (length xs) + i else i)"

definition py_index :: "'a list \<Rightarrow> int \<Rightarrow> error + 'a" where
  "py_index xs i =
     (if i < - int (length xs) \<or> int (length xs) \<le> i then Inl IndexError
      else Inr (py_nth xs i))"

fun select_hidden :: "'e list \<Rightarrow> int list \<Rightarrow> error + 'e list" where
  "select_hidden hidden_states [] = Inr []"
| "select_hidden hidden_states (i # idx) =
     (if i < int (length hidden_states)
      then (case py_index hidden_states i of
              Inl e \<Rightarrow> Inl e
            | Inr h \<Rightarrow>
                (case select_hidden hidden_states idx of
                   Inl e \<Rightarrow> Inl e
                 | Inr hs \<Rightarrow> Inr (h # hs)))
      else select_hidden hidden_states idx)"

definition select_embeddings :: "'e \<times> 'e \<times> 'e list \<Rightarrow> int list \<Rightarrow> error + 'e list" where
  "select_embeddings features idx =
     (case features of (last_hidden_state, pooler_output, hidden_states) \<Rightarrow>
        (case select_hidden hidden_states idx of
           Inl e \<Rightarrow> Inl e
         | Inr hs \<Rightarrow> Inr (last_hidden_state # hs)))"

text \<open>
  Lines 76 to 87: both runs of the vision encoder and both selections, the conditional
  list first.
\<close>

definition encode_images ::
  "('l, 'g) torch \<Rightarrow> ('e, 'l, 'g, 'sch) inference_args \<Rightarrow> error + 'e list \<times> 'e list" where
  "encode_images T a =
     (let image_features = image_encoder a (pixel_values_clip (example a));
          uncond_image_features =
            image_encoder a (zeros_like T (pixel_values_clip (example a)))
      in
      case select_embeddings image_features (image_encoder_layers_idx a) of
        Inl e \<Rightarrow> Inl e
      | Inr image_embeddings \<Rightarrow>
      case select_embeddings uncond_image_features (image_encoder_layers_idx a) of
        Inl e \<Rightarrow> Inl e
      | Inr uncond_image_emmbedings \<Rightarrow> Inr (image_embeddings, uncond_image_emmbedings))"

text \<open>
  Lines 72 to 96: the four embedding streams, as the unconditional and the conditional
  pair, or the exception that ends the run, with the calls made so far.
\<close>

definition conditioning ::
  "('l, 'g) torch \<Rightarrow> ('e, 'l, 'g, 'sch) inference_args
     \<Rightarrow> (error + ('e \<times> 'e) \<times> ('e \<times> 'e)) \<times> ('e, 'l) event list" where
  "conditioning T a =
     (let placeholder_idx = concept_placeholder_idx (example a);
          kwargs = [(''token_index'', token_index a)]
      in
      case encode_images T a of
        Inl e \<Rightarrow> (Inl e, [])
      | Inr (image_embeddings, uncond_image_emmbedings) \<Rightarrow>
      case text_adapter a image_embeddings kwargs of
        Inl e \<Rightarrow> (Inl e, [TextAdapterCall image_embeddings])
      | Inr concept_text_embeddings \<Rightarrow>
      case image_adapter a image_embeddings kwargs of
        Inl e \<Rightarrow> (Inl e, [TextAdapterCall image_embeddings, ImageAdapterCall image_embeddings])
      | Inr encoder_hidden_states_image \<Rightarrow>
      case image_adapter a uncond_image_emmbedings kwargs of
        Inl e \<Rightarrow> (Inl e, [TextAdapterCall image_embeddings, ImageAdapterCall image_embeddings,
                         ImageAdapterCall uncond_image_emmbedings])
      | Inr uncond_encoder_hidden_states_image \<Rightarrow>
          let uncond_embeddings = text_encoder a (uncond_ids T a) None;
              encoder_hidden_states =
                text_encoder a (text_input_ids (example a))
                  (Some (concept_text_embeddings, placeholder_idx))
          in (Inr ((uncond_embeddings, uncond_encoder_hidden_states_image),
                   (encoder_hidden_states, encoder_hidden_states_image)),
              [TextAdapterCall image_embeddings, ImageAdapterCall image_embeddings,
               ImageAdapterCall uncond_image_emmbedings,
               TextEncoderCall (uncond_ids T a) None,
               TextEncoderCall (text_input_ids (example a))
                 (Some (concept_text_embeddings, placeholder_idx))]))"

text \<open>Lines 39 and 40: the scheduler of the run.\<close>

definition loop_scheduler ::
  "('l, 'sch) scheduler_api \<Rightarrow> ('e, 'l, 'g, 'sch) inference_args \<Rightarrow> 'sch" where
  "loop_scheduler api a = set_timesteps api (timesteps a) (from_config api (scheduler a))"

text \<open>Line 116: classifier-free guidance, with \<open>scale\<close> for \<^verbatim>\<open>guidance_scale\<close>.\<close>

definition guided_noise :: "('l, 'g) torch \<Rightarrow> real \<Rightarrow> 'l \<Rightarrow> 'l \<Rightarrow> 'l" where
  "guided_noise T scale noise_pred_uncond noise_pred_text =
     tadd T noise_pred_uncond (smul T scale (tsub T noise_pred_text noise_pred_uncond))"

text \<open>
  One evaluation of the U-Net, \<^verbatim>\<open>unet(x, t, encoder_hidden_states=streams).sample\<close>:
  it returns the prediction and leaves its event on the trace.
\<close>

definition call_unet ::
  "('e, 'l) unet \<Rightarrow> 'l \<Rightarrow> int \<Rightarrow> 'e \<times> 'e \<Rightarrow> ('e, 'l) event list \<Rightarrow> 'l \<times> ('e, 'l) event list" where
  "call_unet u x t streams trace =
     (predict u x t streams, trace @ [UNetCall x t streams (predict u x t streams)])"

text \<open>
  Lines 99 to 119: one pass of the loop body, at index \<open>i\<close> and timestep \<open>t\<close>, on the
  scheduler, the latents and the trace.
\<close>

definition denoise_step ::
  "('l, 'g) torch \<Rightarrow> ('l, 'sch) scheduler_api \<Rightarrow> ('e, 'l, 'g, 'sch) inference_args
     \<Rightarrow> ('e \<times> 'e) \<times> ('e \<times> 'e) \<Rightarrow> nat \<times> int
     \<Rightarrow> 'sch \<times> 'l \<times> ('e, 'l) event list \<Rightarrow> 'sch \<times> 'l \<times> ('e, 'l) event list" where
  "denoise_step T api a streams it st =
     (case (streams, it, st) of ((uncond, cond), (i, t), (sched, latents, trace)) \<Rightarrow>
        let grad_enabled =
              (training_mode a \<and> int i = int (length (timesteps_of api sched)) - 1);
            latent_model_input = scale_model_input api sched latents t
        in
        case call_unet (unet a) latent_model_input t uncond
               (trace @ [SetGradEnabled grad_enabled]) of
          (noise_pred_uncond, trace') \<Rightarrow>
        case call_unet (unet a) latent_model_input t cond trace' of
          (noise_pred_text, trace'') \<Rightarrow>
        let noise_pred = guided_noise T (guidance_scale a) noise_pred_uncond noise_pred_text
        in case step api sched noise_pred t latents of (prev_sample, sched') \<Rightarrow>
             (sched', prev_sample, trace''))"

text \<open>Line 98: the loop over \<^verbatim>\<open>enumerate(scheduler.timesteps)\<close>.\<close>

fun denoise_loop ::
  "('l, 'g) torch \<Rightarrow> ('l, 'sch) scheduler_api \<Rightarrow> ('e, 'l, 'g, 'sch) inference_args
     \<Rightarrow> ('e \<times> 'e) \<times> ('e \<times> 'e) \<Rightarrow> (nat \<times> int) list
     \<Rightarrow> 'sch \<times> 'l \<times> ('e, 'l) event list \<Rightarrow> 'sch \<times> 'l \<times> ('e, 'l) event list" where
  "denoise_loop T api a streams [] st = st"
| "denoise_loop T api a streams (it # its) st =
     denoise_loop T api a streams its (denoise_step T api a streams it st)"

text \<open>
  Lines 121 to 123: Python's \<^verbatim>\<open>1 / vae.config.scaling_factor\<close> raises on a zero
  factor.
\<close>

definition decode_latents ::
  "('l, 'g) torch \<Rightarrow> ('e, 'l, 'g, 'sch) inference_args \<Rightarrow> 'l \<Rightarrow> error + 'l" where
  "decode_latents T a latents =
     (if scaling_factor (vae a) = 0 then Inl ZeroDivisionError
      else Inr (clamp T (- 1) 1
                  (decode (vae a) (smul T (float_div T 1 (scaling_factor (vae a))) latents))))"

text \<open>
  The whole function, started with the generator in state \<open>g\<close>: the images or the
  exception, and the trace.
\<close>

definition run_inference ::
  "('l, 'g) torch \<Rightarrow> ('l, 'sch) scheduler_api \<Rightarrow> ('e, 'l, 'g, 'sch) inference_args
     \<Rightarrow> 'g \<Rightarrow> (error + 'l) \<times> ('e, 'l) event list" where
  "run_inference T api a g =
     (let sched = loop_scheduler api a;
          latents = initial_latents T api a sched g
      in case conditioning T a of
           (Inl e, trace) \<Rightarrow> (Inl e, trace)
         | (Inr streams, trace) \<Rightarrow>
             (case denoise_loop T api a streams (List.enumerate 0 (timesteps_of api sched))
                     (sched, latents, trace) of
                (_, latents', trace') \<Rightarrow> (decode_latents T a latents', trace')))"

section \<open>Stating the properties\<close>

subsection \<open>The adapter's tokens\<close>

text \<open>
  The token of one layer for one batch element, from the positions \<open>rows\<close> of that
  element: the global branch at the CLS position 0, plus the mean over the patch
  positions of the patch branch, entry by entry over the \<open>d\<close> output features.
\<close>

definition token ::
  "'s scalar_ops \<Rightarrow> ('s list \<Rightarrow> 's list) \<Rightarrow> ('s list \<Rightarrow> 's list) \<Rightarrow> nat \<Rightarrow> 's list list \<Rightarrow> 's list" where
  "token ops global_branch patch_branch d rows =
     map2 (add ops) (global_branch (rows ! 0))
       (map (\<lambda>j. mean ops (map (\<lambda>v. patch_branch v ! j) (drop 1 rows))) [0..<d])"

text \<open>
  The tokens of all layers, concatenated along the sequence axis in the order of the
  layer index, for every batch element below \<open>B\<close>.
\<close>

definition tokens ::
  "'s scalar_ops \<Rightarrow> (attr \<Rightarrow> 's list \<Rightarrow> 's list) \<Rightarrow> nat \<Rightarrow> 's tensor3 list \<Rightarrow> nat \<Rightarrow> 's tensor3" where
  "tokens ops init d embs B =
     map (\<lambda>b. map (\<lambda>i. token ops (init (mapping i)) (init (mapping_patch i)) d (embs ! i ! b))
                [0..<length embs])
       [0..<B]"

text \<open>
  The hidden state of one layer: what one pass of the adapter's loop appends, with the
  networks applied position by position.
\<close>

definition layer_state ::
  "'s scalar_ops \<Rightarrow> (attr \<Rightarrow> 's list \<Rightarrow> 's list) \<Rightarrow> nat \<Rightarrow> nat \<Rightarrow> 's tensor3 \<Rightarrow> 's tensor3" where
  "layer_state ops init d i emb =
     tensor_add ops (map (map (init (mapping i))) (slice_cls emb))
       (mean_dim1 ops d (map (map (init (mapping_patch i))) (slice_patches emb)))"

text \<open>
  Every embedding of the list has shape (\<open>B\<close>, positions, \<open>w\<close>) with at least two
  positions; and a tensor has shape (\<open>B\<close>, \<open>N\<close>, \<open>d\<close>).
\<close>

definition well_shaped :: "nat \<Rightarrow> nat \<Rightarrow> 's tensor3 list \<Rightarrow> bool" where
  "well_shaped B w embs =
     list_all (\<lambda>emb. length emb = B \<and>
                 list_all (\<lambda>rows. 2 \<le> length rows \<and> list_all (\<lambda>v. length v = w) rows) emb)
       embs"

definition has_shape :: "nat \<Rightarrow> nat \<Rightarrow> nat \<Rightarrow> 's tensor3 \<Rightarrow> bool" where
  "has_shape B N d t =
     (length t = B \<and> list_all (\<lambda>rows. length rows = N \<and> list_all (\<lambda>v. length v = d) rows) t)"

subsection \<open>Reading a trace\<close>

fun grad_flag_of :: "('e, 'l) event \<Rightarrow> bool list" where
  "grad_flag_of (SetGradEnabled flag) = [flag]"
| "grad_flag_of _ = []"

definition grad_flags :: "('e, 'l) event list \<Rightarrow> bool list" where
  "grad_flags trace = concat (map grad_flag_of trace)"

fun unet_call_of :: "('e, 'l) event \<Rightarrow> ('e \<times> 'e) list" where
  "unet_call_of (UNetCall x t streams noise_pred) = [streams]"
| "unet_call_of _ = []"

definition unet_calls :: "('e, 'l) event list \<Rightarrow> ('e \<times> 'e) list" where
  "unet_calls trace = concat (map unet_call_of trace)"

fun text_adapter_call_of :: "('e, 'l) event \<Rightarrow> 'e list list" where
  "text_adapter_call_of (TextAdapterCall embs) = [embs]"
| "text_adapter_call_of _ = []"

definition text_adapter_calls :: "('e, 'l) event list \<Rightarrow> 'e list list" where
  "text_adapter_calls trace = concat (map text_adapter_call_of trace)"

fun text_encoder_call_of :: "('e, 'l) event \<Rightarrow> (ids \<times> ('e \<times> int list) option) list" where
  "text_encoder_call_of (TextEncoderCall input_ids concept) = [(input_ids, concept)]"
| "text_encoder_call_of _ = []"

definition text_encoder_calls ::
  "('e, 'l) event list \<Rightarrow> (ids \<times> ('e \<times> int list) option) list" where
  "text_encoder_calls trace = concat (map text_encoder_call_of trace)"

text \<open>
  The events of one pass of the loop body: the gradient flag, then the evaluation of
  the U-Net \<open>u\<close> on the unconditional pair, then its evaluation on the conditional
  pair, at one latent input and timestep, each with the prediction it returns.
\<close>

definition step_events ::
  "('e, 'l) unet \<Rightarrow> 'e \<times> 'e \<Rightarrow> 'e \<times> 'e \<Rightarrow> bool \<times> int \<times> 'l \<Rightarrow> ('e, 'l) event list" where
  "step_events u uncond cond s =
     (case s of (flag, t, x) \<Rightarrow>
        [SetGradEnabled flag,
         UNetCall x t uncond (predict u x t uncond),
         UNetCall x t cond (predict u x t cond)])"

text \<open>
  The passes of the loop from index \<open>i\<close> over the timesteps \<open>ts\<close>: the flag, the
  timestep and the latent input of each pass, where the scheduler and the latents of
  the next pass are what \<^verbatim>\<open>scheduler.step\<close> returns for the guided prediction of this
  one.
\<close>

fun loop_steps ::
  "('l, 'g) torch \<Rightarrow> ('l, 'sch) scheduler_api \<Rightarrow> ('e, 'l, 'g, 'sch) inference_args
     \<Rightarrow> ('e \<times> 'e) \<times> ('e \<times> 'e) \<Rightarrow> nat \<Rightarrow> int list \<Rightarrow> 'sch \<Rightarrow> 'l \<Rightarrow> (bool \<times> int \<times> 'l) list" where
  "loop_steps T api a streams i [] sched latents = []"
| "loop_steps T api a streams i (t # ts) sched latents =
     (let x = scale_model_input api sched latents t;
          noise_pred =
            guided_noise T (guidance_scale a) (predict (unet a) x t (fst streams))
              (predict (unet a) x t (snd streams));
          r = step api sched noise_pred t latents
      in (training_mode a \<and> int i = int (length (timesteps_of api sched)) - 1, t, x) #
           loop_steps T api a streams (Suc i) ts (snd r) (fst r))"

text \<open>
  Arithmetic in which a product with 1 is its other factor, and in which a difference
  added to what was subtracted gives back the minuend. Exact arithmetic is so.
\<close>

definition one_is_neutral :: "('l, 'g) torch \<Rightarrow> bool" where
  "one_is_neutral T = (\<forall>x. smul T 1 x = x)"

definition differences_cancel :: "('l, 'g) torch \<Rightarrow> bool" where
  "differences_cancel T = (\<forall>u c. tadd T u (tsub T c u) = c)"

text \<open>
  What the library's scheduler is taken to do: \<^verbatim>\<open>set_timesteps(T)\<close> makes \<open>T\<close>
  timesteps, and \<^verbatim>\<open>step\<close> leaves the \<^verbatim>\<open>timesteps\<close> attribute as it is.
\<close>

definition makes_timesteps :: "('l, 'sch) scheduler_api \<Rightarrow> bool" where
  "makes_timesteps api = (\<forall>n s. length (timesteps_of api (set_timesteps api n s)) = n)"

definition keeps_timesteps :: "('l, 'sch) scheduler_api \<Rightarrow> bool" where
  "keeps_timesteps api =
     (\<forall>s noise_pred t x.
        timesteps_of api (snd (step api s noise_pred t x)) = timesteps_of api s)"

subsection \<open>A small pipeline\<close>

text \<open>
  Concrete collaborators on which the statements below are evaluated: scalars and
  latents are real numbers with exact arithmetic, the generator state is a counter,
  and a scheduler is its list of timesteps.
\<close>

definition exact_ops :: "real scalar_ops" where
  "exact_ops = \<lparr>add = (+), mean = (\<lambda>xs. sum_list xs / real (length xs))\<rparr>"

definition demo_torch :: "(real, nat) torch" where
  "demo_torch =
     \<lparr>manual_seed = (\<lambda>s. nat \<bar>s\<bar>),
      randn = (\<lambda>shape g. (real g, Suc g)),
      zeros_like = (\<lambda>x. 0),
      shape0 = (\<lambda>x. 1),
      clamp = (\<lambda>lo hi x. max lo (min hi x)),
      tadd = (+),
      tsub = (-),
      smul = (*),
      float_div = (/)\<rparr>"

definition demo_scheduler :: "(real, int list) scheduler_api" where
  "demo_scheduler =
     \<lparr>from_config = (\<lambda>s. []),
      set_timesteps = (\<lambda>n s. map int (rev [0..<n])),
      timesteps_of = (\<lambda>s. s),
      init_noise_sigma = (\<lambda>s. 1),
      add_noise = (\<lambda>s z n ts. z + n),
      scale_model_input = (\<lambda>s x t. x),
      step = (\<lambda>s noise_pred t x. (x - noise_pred / 4, s))\<rparr>"

definition demo_args :: "(real tensor3, real, nat, int list) inference_args" where
  "demo_args =
     \<lparr>example =
        \<lparr>pixel_values = 1, pixel_values_clip = 1, text_input_ids = [[5, 6]],
         concept_placeholder_idx = [1], negative_text_input_ids = None\<rparr>,
      tokenizer =
        \<lparr>model_max_length = 2, tokenize = (\<lambda>texts padding n. map (\<lambda>t. replicate n 0) texts)\<rparr>,
      image_encoder =
        (\<lambda>x. ([[[x, 1], [2, 3]]], [[[x]]], [[[[x, 0], [1, 1]]], [[[x, 2], [3, 3]]]])),
      text_encoder =
        (\<lambda>input_ids concept.
           case concept of
             None \<Rightarrow> [[map real_of_int (concat input_ids)]]
           | Some (c, p) \<Rightarrow> c),
      unet = \<lparr>in_channels = 4, predict = (\<lambda>x t streams. x + real (length (fst streams)))\<rparr>,
      text_adapter = (\<lambda>embs kwargs. Inr (concat embs)),
      image_adapter = (\<lambda>embs kwargs. Inr (concat embs)),
      vae = \<lparr>encode_sample = (\<lambda>x g. (x + real g, Suc g)), scaling_factor = 2, decode = (\<lambda>z. z)\<rparr>,
      scheduler = [],
      image_encoder_layers_idx = [1, 7, - 1],
      latent_size = 8,
      guidance_scale = 1,
      timesteps = 2,
      token_index = 0,
      seed = Some 3,
      from_noised_image = False,
      training_mode = True\<rparr>"

text \<open>The same pipeline with the adapters of this repository, of three tokens each.\<close>

definition demo_photoverse_args :: "(real tensor3, real, nat, int list) inference_args" where
  "demo_photoverse_args =
     demo_args
       \<lparr>text_adapter := adapter_call exact_ops (PhotoVerseAdapter (\<lambda>name v. v) 2 2 3),
        image_adapter := adapter_call exact_ops (PhotoVerseAdapter (\<lambda>name v. v) 2 2 3)\<rparr>"

subsection \<open>Arithmetic with a significand of 24 bits\<close>

text \<open>
  The nearest integer, a tie going to the even one; and the nearest number with a
  significand of 24 bits, a tie going to the even significand. The latter is the
  rounding of every binary32 operation whose exact result lies in the normal range of
  the format. A latent tensor of one entry, with this rounding after every operation:
\<close>

definition round_half_even :: "real \<Rightarrow> int" where
  "round_half_even y =
     (let n = \<lfloor>y\<rfloor>
      in if y - of_int n < 1 / 2 then n
         else if 1 / 2 < y - of_int n then n + 1
         else if even n then n else n + 1)"

definition round24 :: "real \<Rightarrow> real" where
  "round24 x =
     (if x = 0 then 0
      else let e = \<lfloor>log 2 \<bar>x\<bar>\<rfloor> - 23
           in of_int (round_half_even (x / 2 powr of_int e)) * 2 powr of_int e)"

definition float32_torch :: "(real, nat) torch" where
  "float32_torch =
     demo_torch
       \<lparr>tadd := (\<lambda>x y. round24 (x + y)),
        tsub := (\<lambda>x y. round24 (x - y)),
        smul := (\<lambda>s x. round24 (s * x))\<rparr>"

section \<open>Proofs\<close>

subsection \<open>The adapter\<close>

lemma adapter_lookup:
  "PhotoVerseAdapter init w d n name =
     (case name of
        mapping i \<Rightarrow> if i < n then Some (new_branch w d (init (mapping i))) else None
      | mapping_patch i \<Rightarrow>
          if i < n then Some (new_branch w d (init (mapping_patch i))) else None)"
proof (induction n)
  case 0
  show ?case by (simp add: PhotoVerseAdapter_def split: attr.splits)
next
  case (Suc n)
  have "PhotoVerseAdapter init w d (Suc n) =
        (PhotoVerseAdapter init w d n)
          (mapping n \<mapsto> new_branch w d (init (mapping n)),
           mapping_patch n \<mapsto> new_branch w d (init (mapping_patch n)))"
    by (simp add: PhotoVerseAdapter_def)
  then show ?case using Suc by (auto split: attr.splits simp: less_Suc_eq)
qed

lemma call_branch_slices:
  assumes "list_all (list_all (\<lambda>v. length v = w)) emb"
  shows "call_branch (new_branch w d f) (slice_cls emb) = Inr (map (map f) (slice_cls emb))"
    and "call_branch (new_branch w d f) (slice_patches emb) = Inr (map (map f) (slice_patches emb))"
  using assms
  by (auto simp: call_branch_def new_branch_def slice_cls_def slice_patches_def list_all_iff
      dest: in_set_takeD in_set_dropD)

lemma forward_loop_result:
  assumes "list_all (list_all (list_all (\<lambda>v. length v = w))) embs" and "i \<le> n"
  shows "forward_loop ops (PhotoVerseAdapter init w d n) i embs hs =
     (if i + length embs \<le> n
      then Inr (hs @ map (\<lambda>(k, emb). layer_state ops init d k emb) (List.enumerate i embs))
      else Inl (AttributeError (mapping n)))"
  using assms
proof (induction embs arbitrary: i hs)
  case Nil
  then show ?case by simp
next
  case (Cons emb embs)
  show ?case
  proof (cases "i < n")
    case True
    have w: "list_all (list_all (\<lambda>v. length v = w)) emb"
      and r: "list_all (list_all (list_all (\<lambda>v. length v = w))) embs"
      using Cons.prems by simp_all
    show ?thesis
      using True Cons.IH[OF r, of "Suc i"] call_branch_slices[OF w]
      by (simp add: adapter_lookup layer_state_def[symmetric] new_branch_def)
  next
    case False
    then have "i = n" using Cons.prems by simp
    then show ?thesis by (simp add: adapter_lookup)
  qed
qed

lemma layer_state_length: "length (layer_state ops init d i emb) = length emb"
  by (simp add: layer_state_def tensor_add_def mean_dim1_def slice_cls_def slice_patches_def)

lemma layer_state_nth:
  assumes "b < length emb" and "emb ! b \<noteq> []"
  shows "layer_state ops init d i emb ! b =
           [token ops (init (mapping i)) (init (mapping_patch i)) d (emb ! b)]"
proof -
  obtain v rest where r: "emb ! b = v # rest" using assms(2) by (cases "emb ! b") auto
  show ?thesis using assms(1)
    by (simp add: layer_state_def tensor_add_def mean_dim1_def slice_cls_def slice_patches_def
        token_def r comp_def)
qed

lemma well_shaped_nth:
  assumes "well_shaped B w embs" and "i < length embs"
  shows "length (embs ! i) = B"
    and "b < B \<Longrightarrow> 2 \<le> length (embs ! i ! b)"
    and "b < B \<Longrightarrow> list_all (\<lambda>v. length v = w) (embs ! i ! b)"
proof -
  have e: "length (embs ! i) = B \<and>
      list_all (\<lambda>rows. 2 \<le> length rows \<and> list_all (\<lambda>v. length v = w) rows) (embs ! i)"
    using assms unfolding well_shaped_def list_all_length by blast
  then show "length (embs ! i) = B" by simp
  have r: "2 \<le> length (embs ! i ! b) \<and> list_all (\<lambda>v. length v = w) (embs ! i ! b)" if "b < B"
    using e that unfolding list_all_length by blast
  show "b < B \<Longrightarrow> 2 \<le> length (embs ! i ! b)" using r by simp
  show "b < B \<Longrightarrow> list_all (\<lambda>v. length v = w) (embs ! i ! b)" using r by simp
qed

lemma well_shaped_widths:
  "well_shaped B w embs \<Longrightarrow> list_all (list_all (list_all (\<lambda>v. length v = w))) embs"
  by (auto simp: well_shaped_def list_all_iff)

lemma cat_layer_states:
  assumes "embs \<noteq> []" and ws: "well_shaped B w embs"
  shows "cat_dim1 (map (\<lambda>(k, emb). layer_state ops init d k emb) (List.enumerate 0 embs)) =
         Inr (tokens ops init d embs B)"
proof -
  let ?hs = "map (\<lambda>(k, emb). layer_state ops init d k emb) (List.enumerate 0 embs)"
  let ?tok = "\<lambda>b i. token ops (init (mapping i)) (init (mapping_patch i)) d (embs ! i ! b)"
  have hs_nth: "?hs ! i = layer_state ops init d i (embs ! i)" if "i < length embs" for i
    using that by (simp add: nth_enumerate_eq)
  obtain e es where c: "embs = e # es" using assms(1) by (cases embs) auto
  have hd_len: "length (layer_state ops init d 0 e) = B"
    using well_shaped_nth(1)[OF ws, of 0] c by (simp add: layer_state_length)
  have all: "list_all (\<lambda>u. length u = B) ?hs"
    unfolding list_all_length
  proof (intro allI impI)
    fix i assume "i < length ?hs"
    then have i: "i < length embs" by simp
    show "length (?hs ! i) = B"
      unfolding hs_nth[OF i] using well_shaped_nth(1)[OF ws i] by (simp add: layer_state_length)
  qed
  have row: "concat (map (\<lambda>u. u ! b) ?hs) = map (?tok b) [0..<length embs]" if b: "b < B" for b
  proof -
    have "map (\<lambda>u. u ! b) ?hs = map (\<lambda>i. [?tok b i]) [0..<length embs]"
    proof (rule nth_equalityI)
      show "length (map (\<lambda>u. u ! b) ?hs) = length (map (\<lambda>i. [?tok b i]) [0..<length embs])"
        by simp
    next
      fix i assume "i < length (map (\<lambda>u. u ! b) ?hs)"
      then have i: "i < length embs" by simp
      have ne: "embs ! i ! b \<noteq> []" using well_shaped_nth(2)[OF ws i b] by auto
      have "map (\<lambda>u. u ! b) ?hs ! i = ?hs ! i ! b" using i by (simp del: map_map)
      also have "\<dots> = layer_state ops init d i (embs ! i) ! b" using hs_nth[OF i] by simp
      also have "\<dots> = [?tok b i]"
        using layer_state_nth[of b "embs ! i"] well_shaped_nth(1)[OF ws i] ne b by simp
      finally show "map (\<lambda>u. u ! b) ?hs ! i = map (\<lambda>i. [?tok b i]) [0..<length embs] ! i"
        using i by simp
    qed
    then show ?thesis by (simp add: comp_def del: map_map)
  qed
  have "cat_dim1 ?hs = Inr (map (\<lambda>b. concat (map (\<lambda>u. u ! b) ?hs)) [0..<B])"
    using all hd_len c by (simp add: cat_dim1_def)
  also have "map (\<lambda>b. concat (map (\<lambda>u. u ! b) ?hs)) [0..<B] = tokens ops init d embs B"
    unfolding tokens_def
  proof (rule map_cong[OF refl])
    fix b assume "b \<in> set [0..<B]"
    then have "b < B" by simp
    then show "concat (map (\<lambda>u. u ! b) ?hs) = map (?tok b) [0..<length embs]"
      by (rule row)
  qed
  finally show ?thesis .
qed

lemma forward_result:
  assumes "well_shaped B w embs"
  shows "forward ops (PhotoVerseAdapter init w d n) embs =
     (if n < length embs then Inl (AttributeError (mapping n))
      else if embs = [] then Inl RuntimeError
      else Inr (tokens ops init d embs B))"
proof (cases "embs = []")
  case True
  then show ?thesis by (simp add: forward_def cat_dim1_def)
next
  case False
  show ?thesis
    using False forward_loop_result[OF well_shaped_widths[OF assms], of 0 n ops init d "[]"]
      cat_layer_states[OF False assms, of ops init d]
    by (simp add: forward_def)
qed

lemma tokens_shape:
  assumes ws: "well_shaped B w embs"
    and net: "\<forall>name v. length v = w \<longrightarrow> length (init name v) = d"
  shows "has_shape B (length embs) d (tokens ops init d embs B)"
proof -
  have "length (token ops (init (mapping i)) (init (mapping_patch i)) d (embs ! i ! b)) = d"
    if i: "i < length embs" and b: "b < B" for i b
  proof -
    have "embs ! i ! b ! 0 \<in> set (embs ! i ! b)"
      using well_shaped_nth(2)[OF ws i b] by (intro nth_mem) auto
    then have "length (embs ! i ! b ! 0) = w"
      using well_shaped_nth(3)[OF ws i b] by (simp add: list_all_iff)
    then show ?thesis using net by (simp add: token_def)
  qed
  then show ?thesis
    unfolding has_shape_def tokens_def list_all_length by simp
qed

subsection \<open>C1: the adapter returns the per-layer tokens\<close>

text \<open>
  C1, for a list that is not empty. For every list of \<open>N \<ge> 1\<close> per-layer embeddings, each of shape
  (\<open>B\<close>, positions, \<open>clip_embedding_dim\<close>) with at least two positions, given to an
  adapter constructed with \<open>num_tokens = N\<close> whose networks map vectors of width
  \<open>clip_embedding_dim\<close> to vectors of width \<open>cross_attention_dim\<close>, \<open>forward\<close> returns
  the concatenation along the sequence axis, in the order of the layer index, of the
  tokens \<open>global_branch_i (CLS position) + mean over the patch positions of
  patch_branch_i\<close>, a tensor of shape (\<open>B\<close>, \<open>N\<close>, \<open>cross_attention_dim\<close>).
\<close>

theorem forward_returns_layer_tokens:
  assumes "embs \<noteq> []"
    and "well_shaped B clip_embedding_dim embs"
    and "\<forall>name v. length v = clip_embedding_dim \<longrightarrow> length (init name v) = cross_attention_dim"
  shows "forward ops (PhotoVerseAdapter init clip_embedding_dim cross_attention_dim (length embs)) embs =
           Inr (tokens ops init cross_attention_dim embs B) \<and>
         has_shape B (length embs) cross_attention_dim (tokens ops init cross_attention_dim embs B)"
  using assms forward_result[OF assms(2), of ops init cross_attention_dim "length embs"]
    tokens_shape[OF assms(2,3), of ops]
  by simp

text \<open>Three layers, one batch element, two positions each, identity networks.\<close>

theorem forward_returns_layer_tokens_witness:
  "forward exact_ops (PhotoVerseAdapter (\<lambda>name v. v) 2 2 3)
       [[[[1, 1], [2, 3]]], [[[1, 0], [1, 1]]], [[[1, 2], [3, 3]]]] =
     Inr [[[3, 4], [2, 1], [4, 5]]] \<and>
   has_shape 1 3 2 [[[3, 4], [2, 1], [4, 5 :: real]]]"
proof -
  have n: "[0..<2] = [0, 1]" "[0..<1] = [0]" by (simp_all add: upt_rec)
  show ?thesis
    using forward_returns_layer_tokens
      [of "[[[[1, 1], [2, 3]]], [[[1, 0], [1, 1]]], [[[1, 2], [3, 3::real]]]]"
        1 2 "\<lambda>name v. v" 2 exact_ops]
    by (simp add: well_shaped_def tokens_def token_def exact_ops_def n numeral_3_eq_3)
qed

text \<open>
  Without the bound on \<open>N\<close> the statement fails: an adapter constructed with
  \<open>num_tokens = 0\<close> and given the empty list returns no tensor, since the empty tuple
  of hidden states is refused by the concatenation.
\<close>

theorem forward_no_embeddings_raises:
  "forward exact_ops (PhotoVerseAdapter (\<lambda>name v. v) 2 2 0) [] = Inl RuntimeError"
  by (simp add: forward_def cat_dim1_def)

subsection \<open>C6: a list of another length than \<open>num_tokens\<close>\<close>

text \<open>
  C6, for lists of either length. No length check is performed. For every list of embeddings of one
  batch size and width with at least two positions each: a list longer than
  \<open>num_tokens\<close> fails at the lookup of the branch \<^verbatim>\<open>mapping_{num_tokens}\<close>; the empty
  list is refused by the concatenation; and every other list, also one shorter than
  \<open>num_tokens\<close>, is answered with the tokens of its own layers, as many tokens per batch
  element as the list is long.
\<close>

theorem forward_length_mismatch:
  assumes "well_shaped B clip_embedding_dim embs"
  shows "forward ops (PhotoVerseAdapter init clip_embedding_dim cross_attention_dim num_tokens) embs =
           (if num_tokens < length embs then Inl (AttributeError (mapping num_tokens))
            else if embs = [] then Inl RuntimeError
            else Inr (tokens ops init cross_attention_dim embs B)) \<and>
         list_all (\<lambda>rows. length rows = length embs) (tokens ops init cross_attention_dim embs B)"
  using forward_result[OF assms, of ops init cross_attention_dim num_tokens]
  by (simp add: tokens_def list_all_iff)

text \<open>Two embeddings for an adapter of one token: the lookup of \<^verbatim>\<open>mapping_1\<close> fails.\<close>

theorem forward_length_mismatch_witness:
  "forward exact_ops (PhotoVerseAdapter (\<lambda>name v. v) 2 2 1)
       [[[[1, 1], [2, 3]]], [[[1, 0], [1, 1]]]] = Inl (AttributeError (mapping 1))"
  using forward_length_mismatch [of 1 2 "[[[[1, 1], [2, 3]]], [[[1, 0], [1, 1::real]]]]"
      exact_ops "\<lambda>name v. v" 2 1]
  by (simp add: well_shaped_def)

text \<open>
  One embedding for an adapter of three tokens: no lookup fails, and a set of one token
  is returned.
\<close>

theorem forward_short_list_returns:
  "forward exact_ops (PhotoVerseAdapter (\<lambda>name v. v) 2 2 3) [[[[1, 1], [2, 3]]]] = Inr [[[3, 4]]]"
proof -
  have n: "[0..<2] = [0, 1]" "[0..<1] = [0]" by (simp_all add: upt_rec)
  have "well_shaped 1 2 [[[[1, 1], [2, 3::real]]]]" by (simp add: well_shaped_def)
  from forward_result[OF this, of exact_ops "\<lambda>name v. v" 2 3]
  show ?thesis by (simp add: tokens_def token_def exact_ops_def n)
qed

subsection \<open>C8: loading a partial checkpoint\<close>




subsection \<open>The trace of the sampling loop\<close>

lemma trace_append:
  "grad_flags (xs @ ys) = grad_flags xs @ grad_flags ys"
  "unet_calls (xs @ ys) = unet_calls xs @ unet_calls ys"
  "text_adapter_calls (xs @ ys) = text_adapter_calls xs @ text_adapter_calls ys"
  "text_encoder_calls (xs @ ys) = text_encoder_calls xs @ text_encoder_calls ys"
  by (simp_all add: grad_flags_def unet_calls_def text_adapter_calls_def text_encoder_calls_def)

lemma step_events_read:
  "grad_flags (concat (map (step_events u uncond cond) xs)) = map fst xs"
  "unet_calls (concat (map (step_events u uncond cond) xs)) =
     concat (replicate (length xs) [uncond, cond])"
  "text_adapter_calls (concat (map (step_events u uncond cond) xs)) = []"
  "text_encoder_calls (concat (map (step_events u uncond cond) xs)) = []"
  by (induction xs)
    (auto simp: step_events_def grad_flags_def unet_calls_def text_adapter_calls_def
      text_encoder_calls_def)

lemma denoise_step_result:
  "denoise_step T api a (uncond, cond) (i, t) (sched, latents, trace) =
     (let x = scale_model_input api sched latents t;
          r = step api sched
                (guided_noise T (guidance_scale a) (predict (unet a) x t uncond)
                   (predict (unet a) x t cond))
                t latents
      in (snd r, fst r,
          trace @ step_events (unet a) uncond cond
            (training_mode a \<and> int i = int (length (timesteps_of api sched)) - 1, t, x)))"
  by (simp add: denoise_step_def call_unet_def step_events_def Let_def split: prod.splits)

lemma denoise_loop_result:
  "\<exists>sched' latents'.
     denoise_loop T api a (uncond, cond) (List.enumerate k ts) (sched, latents, trace) =
       (sched', latents',
        trace @ concat (map (step_events (unet a) uncond cond)
                          (loop_steps T api a (uncond, cond) k ts sched latents)))"
proof (induction ts arbitrary: k sched latents trace)
  case Nil
  show ?case by simp
next
  case (Cons t ts)
  let ?x = "scale_model_input api sched latents t"
  let ?r = "step api sched
                (guided_noise T (guidance_scale a) (predict (unet a) ?x t uncond)
                   (predict (unet a) ?x t cond))
                t latents"
  let ?ev = "step_events (unet a) uncond cond
      (training_mode a \<and> int k = int (length (timesteps_of api sched)) - 1, t, ?x)"
  have st: "denoise_step T api a (uncond, cond) (k, t) (sched, latents, trace) =
      (snd ?r, fst ?r, trace @ ?ev)"
    by (simp add: denoise_step_result Let_def)
  obtain s2 l2 where lp:
    "denoise_loop T api a (uncond, cond) (List.enumerate (Suc k) ts) (snd ?r, fst ?r, trace @ ?ev) =
       (s2, l2, (trace @ ?ev) @ concat (map (step_events (unet a) uncond cond)
                          (loop_steps T api a (uncond, cond) (Suc k) ts (snd ?r) (fst ?r))))"
    using Cons.IH[of "Suc k" "snd ?r" "fst ?r" "trace @ ?ev"] by blast
  show ?case
    by (rule exI[of _ s2], rule exI[of _ l2]) (simp add: st lp Let_def)
qed


lemma loop_steps_flags:
  assumes "keeps_timesteps api"
  shows "map fst (loop_steps T api a streams k ts sched latents) =
     map (\<lambda>i. training_mode a \<and> int i = int (length (timesteps_of api sched)) - 1)
       [k..<k + length ts]"
proof (induction ts arbitrary: k sched latents)
  case Nil
  show ?case by simp
next
  case (Cons t ts)
  have u: "[k..<k + length (t # ts)] = k # [Suc k..<Suc k + length ts]"
    using upt_conv_Cons[of k "Suc (k + length ts)"] by simp
  have keep: "timesteps_of api (snd (step api sched n t latents)) = timesteps_of api sched" for n
    using assms unfolding keeps_timesteps_def by simp
  show ?case
    unfolding u by (simp add: Let_def Cons.IH keep)
qed

lemma run_inference_trace:
  assumes "conditioning T a = (Inr (uncond, cond), trace)"
  shows "snd (run_inference T api a g) =
     trace @ concat (map (step_events (unet a) uncond cond)
       (loop_steps T api a (uncond, cond) 0 (timesteps_of api (loop_scheduler api a))
          (loop_scheduler api a) (initial_latents T api a (loop_scheduler api a) g)))"
proof -
  let ?s = "loop_scheduler api a"
  obtain s' l' where
    "denoise_loop T api a (uncond, cond) (List.enumerate 0 (timesteps_of api ?s))
          (?s, initial_latents T api a ?s g, trace) =
         (s', l', trace @ concat (map (step_events (unet a) uncond cond)
            (loop_steps T api a (uncond, cond) 0 (timesteps_of api ?s) ?s
               (initial_latents T api a ?s g))))"
    using denoise_loop_result[of T api a uncond cond 0 "timesteps_of api ?s" ?s
        "initial_latents T api a ?s g" trace]
    by blast
  then show ?thesis
    using assms by (simp add: run_inference_def Let_def loop_scheduler_def)
qed


lemma conditioning_result:
  assumes "conditioning T a = (Inr ((uncond_text, uncond_image), (cond_text, cond_image)), trace)"
  shows "\<exists>image_embeddings uncond_image_embeddings concept.
     encode_images T a = Inr (image_embeddings, uncond_image_embeddings) \<and>
     text_adapter a image_embeddings [(''token_index'', token_index a)] = Inr concept \<and>
     image_adapter a image_embeddings [(''token_index'', token_index a)] = Inr cond_image \<and>
     image_adapter a uncond_image_embeddings [(''token_index'', token_index a)] = Inr uncond_image \<and>
     uncond_text = text_encoder a (uncond_ids T a) None \<and>
     cond_text = text_encoder a (text_input_ids (example a))
                   (Some (concept, concept_placeholder_idx (example a))) \<and>
     trace = [TextAdapterCall image_embeddings, ImageAdapterCall image_embeddings,
              ImageAdapterCall uncond_image_embeddings,
              TextEncoderCall (uncond_ids T a) None,
              TextEncoderCall (text_input_ids (example a))
                (Some (concept, concept_placeholder_idx (example a)))]"
  using assms
  by (auto simp: conditioning_def Let_def split: sum.splits prod.splits)

lemma conditioning_reads:
  "grad_flags (snd (conditioning T a)) = []" "unet_calls (snd (conditioning T a)) = []"
  by (simp_all add: conditioning_def Let_def grad_flags_def unet_calls_def
      split: sum.splits prod.splits)

subsection \<open>Facts about the stages\<close>

lemma select_hidden_result:
  "select_hidden hidden_states idx =
     (if \<exists>i\<in>set idx. i < - int (length hidden_states) then Inl IndexError
      else Inr (map (py_nth hidden_states)
                  (filter (\<lambda>i. i < int (length hidden_states)) idx)))"
  by (induction idx) (auto simp: py_index_def)

lemma guided_noise_scale_one:
  assumes "one_is_neutral T" and "differences_cancel T"
  shows "guided_noise T 1 u c = c"
  using assms by (simp add: guided_noise_def one_is_neutral_def differences_cancel_def)

lemma denoise_step_scale_one:
  assumes "guidance_scale a = 1" and "one_is_neutral T" and "differences_cancel T"
  shows "denoise_step T api a (uncond, cond) (i, t) (sched, latents, trace) =
     (snd (step api sched (predict (unet a) (scale_model_input api sched latents t) t cond) t latents),
      fst (step api sched (predict (unet a) (scale_model_input api sched latents t) t cond) t latents),
      trace @ step_events (unet a) uncond cond
        (training_mode a \<and> int i = int (length (timesteps_of api sched)) - 1, t,
         scale_model_input api sched latents t))"
  by (simp add: denoise_step_result Let_def assms(1) guided_noise_scale_one[OF assms(2,3)])

lemma denoise_loop_scale_one:
  assumes "guidance_scale a = 1" and "one_is_neutral T" and "differences_cancel T"
  shows "(case denoise_loop T api a (uncond, cond) its (sched, latents, trace) of
            (sched', latents', _) \<Rightarrow> (sched', latents')) =
         (case denoise_loop T api a (uncond', cond) its (sched, latents, trace') of
            (sched', latents', _) \<Rightarrow> (sched', latents'))"
proof (induction its arbitrary: sched latents trace trace')
  case Nil
  show ?case by simp
next
  case (Cons it its)
  obtain i t where it: "it = (i, t)" by (cases it)
  show ?case
    unfolding it denoise_loop.simps denoise_step_scale_one[OF assms]
    by (rule Cons.IH)
qed

text \<open>Rounding to 24 bits, for a number between two powers of two from \<open>2 ^ 23\<close> on.\<close>

lemma floor_log2:
  assumes "2 ^ k \<le> x" and "x < 2 ^ Suc k"
  shows "\<lfloor>log 2 x\<rfloor> = int k"
proof -
  have "(0::real) < 2 ^ k" by simp
  then have x: "0 < x" using assms(1) by linarith
  have "2 powr real_of_int (int k) \<le> x \<and> x < 2 powr real_of_int (int k + 1)"
    using assms by (simp add: powr_realpow powr_add)
  then show ?thesis
    using floor_log_eq_powr_iff[of x 2 "int k"] x by simp
qed

lemma round24_from_2_23:
  assumes "2 ^ k \<le> \<bar>x\<bar>" and "\<bar>x\<bar> < 2 ^ Suc k" and "23 \<le> k"
  shows "round24 x = of_int (round_half_even (x / 2 ^ (k - 23))) * 2 ^ (k - 23)"
proof -
  have "(0::real) < 2 ^ k" by simp
  then have nz: "x \<noteq> 0" using assms(1) by linarith
  have e: "\<lfloor>log 2 \<bar>x\<bar>\<rfloor> - 23 = int (k - 23)"
    using floor_log2[OF assms(1,2)] assms(3) by simp
  have "2 powr real_of_int (int (k - 23)) = (2::real) ^ (k - 23)"
    by (simp add: powr_realpow)
  then show ?thesis using nz e by (simp add: round24_def Let_def)
qed

lemma round24_examples:
  "round24 (- 99999999) = - 100000000"
  "round24 (- 100000000) = - 100000000"
  "round24 100000000 = 100000000"
  "round24 0 = 0"
proof -
  have f: "\<lfloor>- 99999999 / (8::real)\<rfloor> = - 12500000" by (simp add: floor_eq_iff)
  have "round24 (- 99999999) =
      of_int (round_half_even (- 99999999 / 2 ^ (26 - 23))) * 2 ^ (26 - 23)"
    by (rule round24_from_2_23) simp_all
  also have "round_half_even (- 99999999 / 2 ^ (26 - 23)) = - 12500000"
    by (simp add: round_half_even_def Let_def f)
  finally show "round24 (- 99999999) = - 100000000" by simp
  have "round24 (- 100000000) =
      of_int (round_half_even (- 100000000 / 2 ^ (26 - 23))) * 2 ^ (26 - 23)"
    by (rule round24_from_2_23) simp_all
  also have "round_half_even (- 100000000 / 2 ^ (26 - 23)) = - 12500000"
    by (simp add: round_half_even_def Let_def)
  finally show "round24 (- 100000000) = - 100000000" by simp
  have "round24 100000000 =
      of_int (round_half_even (100000000 / 2 ^ (26 - 23))) * 2 ^ (26 - 23)"
    by (rule round24_from_2_23) simp_all
  also have "round_half_even (100000000 / 2 ^ (26 - 23)) = 12500000"
    by (simp add: round_half_even_def Let_def)
  finally show "round24 100000000 = 100000000" by simp
  show "round24 0 = 0" by (simp add: round24_def)
qed

lemma round24_one: "round24 1 = 1"
proof -
  have e: "\<lfloor>log 2 \<bar>1::real\<bar>\<rfloor> - 23 = - 23" by simp
  have p: "2 powr real_of_int (- 23) = 1 / (2::real) ^ 23"
    by (simp add: powr_minus inverse_eq_divide)
  have q: "(1::real) / (1 / 2 ^ 23) = 8388608" by simp
  have h: "round_half_even 8388608 = 8388608"
    by (simp add: round_half_even_def Let_def)
  have "round24 1 = of_int (round_half_even (1 / 2 powr of_int (- 23))) * 2 powr of_int (- 23)"
    unfolding round24_def Let_def e by (simp only: one_neq_zero if_False)
  also have "\<dots> = of_int (round_half_even 8388608) * (1 / 2 ^ 23)"
    unfolding p q ..
  also have "\<dots> = 1" unfolding h by simp
  finally show ?thesis .
qed

subsection \<open>C2: guidance scale one\<close>

text \<open>
  C2, with the arithmetic of the tensors. When \<open>guidance_scale = 1\<close>, and a product
  with 1 is its other factor, the guided prediction
  \<open>noise_uncond + guidance_scale * (noise_cond - noise_uncond)\<close> is
  \<open>noise_uncond + (noise_cond - noise_uncond)\<close> as the tensors compute it. At a step
  where this sum is the conditional prediction \<open>noise_cond\<close>, the step hands the
  scheduler the conditional U-Net evaluation only. In arithmetic in which
  \<open>u + (c - u) = c\<close> always, as in exact arithmetic, that is so at every step, and the
  scheduler and latents that the loop ends with are the same whatever the
  unconditional pair is.
\<close>

theorem guidance_scale_one:
  assumes "guidance_scale a = 1"
    and "one_is_neutral T"
  shows "guided_noise T (guidance_scale a) noise_pred_uncond noise_pred_text =
       tadd T noise_pred_uncond (tsub T noise_pred_text noise_pred_uncond) \<and>
     (let x = scale_model_input api sched latents t;
          pu = predict (unet a) x t uncond;
          pc = predict (unet a) x t cond
      in tadd T pu (tsub T pc pu) = pc \<longrightarrow>
         (case denoise_step T api a (uncond, cond) (i, t) (sched, latents, trace) of
            (sched', latents', _) \<Rightarrow> (latents', sched')) = step api sched pc t latents) \<and>
     (differences_cancel T \<longrightarrow>
        guided_noise T (guidance_scale a) noise_pred_uncond noise_pred_text = noise_pred_text \<and>
        (case denoise_loop T api a (uncond, cond) its (sched, latents, trace) of
           (sched', latents', _) \<Rightarrow> (sched', latents')) =
          (case denoise_loop T api a (uncond', cond) its (sched, latents, trace') of
             (sched', latents', _) \<Rightarrow> (sched', latents')))"
proof (intro conjI impI)
  have g: "guided_noise T (guidance_scale a) u c = tadd T u (tsub T c u)" for u c
    using assms by (simp add: guided_noise_def one_is_neutral_def)
  show "guided_noise T (guidance_scale a) noise_pred_uncond noise_pred_text =
       tadd T noise_pred_uncond (tsub T noise_pred_text noise_pred_uncond)"
    by (rule g)
  show "let x = scale_model_input api sched latents t;
          pu = predict (unet a) x t uncond;
          pc = predict (unet a) x t cond
      in tadd T pu (tsub T pc pu) = pc \<longrightarrow>
         (case denoise_step T api a (uncond, cond) (i, t) (sched, latents, trace) of
            (sched', latents', _) \<Rightarrow> (latents', sched')) = step api sched pc t latents"
    by (simp add: denoise_step_result Let_def g)
next
  assume d: "differences_cancel T"
  show "guided_noise T (guidance_scale a) noise_pred_uncond noise_pred_text = noise_pred_text"
    using assms(1) guided_noise_scale_one[OF assms(2) d] by simp
  show "(case denoise_loop T api a (uncond, cond) its (sched, latents, trace) of
           (sched', latents', _) \<Rightarrow> (sched', latents')) =
          (case denoise_loop T api a (uncond', cond) its (sched, latents, trace') of
             (sched', latents', _) \<Rightarrow> (sched', latents'))"
    by (rule denoise_loop_scale_one[OF assms d])
qed

text \<open>The real numbers, for the predictions 2 and 5.\<close>

theorem guidance_scale_one_witness:
  "guided_noise demo_torch (guidance_scale demo_args) 2 5 = 5"
proof -
  have h: "guidance_scale demo_args = 1" by (simp add: demo_args_def)
  have n: "one_is_neutral demo_torch" by (simp add: one_is_neutral_def demo_torch_def)
  have d: "differences_cancel demo_torch" by (simp add: differences_cancel_def demo_torch_def)
  from guidance_scale_one[OF h n, where noise_pred_uncond = 2 and noise_pred_text = 5]
  show ?thesis using d by blast
qed

text \<open>
  With the rounding of binary32 the unconditional prediction does not cancel: for the
  binary32 numbers \<open>10 ^ 8\<close> and 1, the difference \<open>1 - 10 ^ 8\<close> is rounded to
  \<open>- 10 ^ 8\<close>, and the guided prediction is 0, not the conditional prediction 1.
\<close>

theorem guidance_scale_one_rounds:
  "guided_noise float32_torch 1 100000000 1 = 0 \<and>
   round24 100000000 = 100000000 \<and> round24 1 = 1"
proof -
  have "tsub float32_torch 1 100000000 = - 100000000"
    by (simp add: float32_torch_def round24_examples)
  moreover have "smul float32_torch 1 (- 100000000) = - 100000000"
    by (simp add: float32_torch_def round24_examples)
  moreover have "tadd float32_torch 100000000 (- 100000000) = 0"
    by (simp add: float32_torch_def round24_examples)
  ultimately have "guided_noise float32_torch 1 100000000 1 = 0"
    by (simp add: guided_noise_def)
  then show ?thesis by (simp add: round24_examples round24_one)
qed

subsection \<open>C3: the adapters of this repository refuse the keyword\<close>

text \<open>
  C3, for every input. When the text adapter and the image adapter are
  PhotoVerseAdapter instances, a run never evaluates the U-Net and always ends in an
  exception. In every run that gets past the selection of the image embeddings, the
  exception is the TypeError for the keyword \<^verbatim>\<open>token_index\<close>, raised by the first
  adapter call, the one of the text adapter; the only other exception is the one of
  the selection itself.
\<close>

theorem photoverse_adapters_raise_type_error:
  assumes "text_adapter a = adapter_call ops (PhotoVerseAdapter init w d n)"
    and "image_adapter a = adapter_call ops' (PhotoVerseAdapter init' w' d' n')"
  shows "unet_calls (snd (run_inference T api a g)) = [] \<and>
     (case encode_images T a of
        Inl e \<Rightarrow> run_inference T api a g = (Inl e, [])
      | Inr (image_embeddings, uncond_image_embeddings) \<Rightarrow>
          run_inference T api a g =
            (Inl (TypeError ''token_index''), [TextAdapterCall image_embeddings]))"
  using assms
  by (simp add: run_inference_def conditioning_def adapter_call_def Let_def unet_calls_def
      split: sum.splits prod.splits)

theorem photoverse_adapters_raise_type_error_witness:
  "run_inference demo_torch demo_scheduler demo_photoverse_args 0 =
   (Inl (TypeError ''token_index''),
    [TextAdapterCall [[[[1, 1], [2, 3]]], [[[1, 2], [3, 3]]], [[[1, 2], [3, 3]]]]])"
proof -
  have e: "encode_images demo_torch demo_photoverse_args =
      Inr ([[[[1, 1], [2, 3]]], [[[1, 2], [3, 3]]], [[[1, 2], [3, 3]]]],
           [[[[0, 1], [2, 3]]], [[[0, 2], [3, 3]]], [[[0, 2], [3, 3]]]])"
    by (simp add: encode_images_def select_embeddings_def py_index_def py_nth_def
        demo_photoverse_args_def demo_args_def demo_torch_def)
  have t: "text_adapter demo_photoverse_args =
      adapter_call exact_ops (PhotoVerseAdapter (\<lambda>name v. v) 2 2 3)"
    and i: "image_adapter demo_photoverse_args =
      adapter_call exact_ops (PhotoVerseAdapter (\<lambda>name v. v) 2 2 3)"
    by (simp_all add: demo_photoverse_args_def)
  from photoverse_adapters_raise_type_error[OF t i, of demo_torch demo_scheduler 0]
  show ?thesis by (simp add: e)
qed

text \<open>
  The configured index \<open>- 3\<close> lies below minus the number of hidden states, two: the
  run ends in the IndexError of the selection, before any adapter is called.
\<close>

theorem photoverse_run_raises_index_error:
  "run_inference demo_torch demo_scheduler
     (demo_photoverse_args\<lparr>image_encoder_layers_idx := [1, - 3]\<rparr>) 0 = (Inl IndexError, [])"
  by (simp add: run_inference_def conditioning_def encode_images_def select_embeddings_def
      py_index_def py_nth_def demo_photoverse_args_def demo_args_def demo_torch_def Let_def)

subsection \<open>C7: layer indices beyond the depth of the encoder\<close>

text \<open>
  C7. A selected-layer index that is at least the number of hidden states never raises:
  it is left out of the conditional and of the unconditional list, each of which is the
  last hidden state followed by the hidden states at the indices below that number, in
  the order of the configuration (a negative index counts from the end). The selection
  raises only for an index below minus the number of hidden states.
\<close>

theorem out_of_range_layers_are_skipped:
  assumes "image_encoder a (pixel_values_clip (example a)) = (last_hidden_state, pooler_output, hidden_states)"
    and "image_encoder a (zeros_like T (pixel_values_clip (example a))) =
           (uncond_last_hidden_state, uncond_pooler_output, uncond_hidden_states)"
  shows "encode_images T a =
     (if (\<exists>i\<in>set (image_encoder_layers_idx a). i < - int (length hidden_states)) \<or>
         (\<exists>i\<in>set (image_encoder_layers_idx a). i < - int (length uncond_hidden_states))
      then Inl IndexError
      else Inr (last_hidden_state #
                  map (py_nth hidden_states)
                    (filter (\<lambda>i. i < int (length hidden_states)) (image_encoder_layers_idx a)),
                uncond_last_hidden_state #
                  map (py_nth uncond_hidden_states)
                    (filter (\<lambda>i. i < int (length uncond_hidden_states))
                       (image_encoder_layers_idx a))))"
  using assms
  by (simp add: encode_images_def select_embeddings_def select_hidden_result Let_def)

theorem out_of_range_layers_are_skipped_witness:
  "encode_images demo_torch demo_args =
      Inr ([[[[1, 1], [2, 3]]], [[[1, 2], [3, 3]]], [[[1, 2], [3, 3]]]],
           [[[[0, 1], [2, 3]]], [[[0, 2], [3, 3]]], [[[0, 2], [3, 3]]]])"
proof -
  have c: "image_encoder demo_args (pixel_values_clip (example demo_args)) =
      ([[[1, 1], [2, 3]]], [[[1]]], [[[[1, 0], [1, 1]]], [[[1, 2], [3, 3]]]])"
    by (simp add: demo_args_def)
  have u: "image_encoder demo_args (zeros_like demo_torch (pixel_values_clip (example demo_args))) =
      ([[[0, 1], [2, 3]]], [[[0]]], [[[[0, 0], [1, 1]]], [[[0, 2], [3, 3]]]])"
    by (simp add: demo_args_def demo_torch_def)
  have i: "image_encoder_layers_idx demo_args = [1, 7, - 1]" by (simp add: demo_args_def)
  from out_of_range_layers_are_skipped[OF c u]
  show ?thesis by (simp add: i py_nth_def)
qed

subsection \<open>C10: a seed makes the run independent of the generator\<close>

text \<open>
  C10. For every seed that is not \<^verbatim>\<open>None\<close>, two runs on the same arguments and the
  same collaborators give the same images, and the same trace, whatever the states of
  the random number generator are in which they start.
\<close>

theorem seeded_runs_agree:
  assumes "seed a = Some s"
  shows "run_inference T api a g = run_inference T api a g'"
  using assms
  by (simp add: run_inference_def initial_latents_def make_noise_def Let_def)

theorem seeded_runs_agree_witness:
  "run_inference demo_torch demo_scheduler demo_args 0 =
   run_inference demo_torch demo_scheduler demo_args 5"
proof -
  have h: "seed demo_args = Some 3" by (simp add: demo_args_def)
  show ?thesis by (rule seeded_runs_agree[OF h])
qed

subsection \<open>The small pipeline, evaluated\<close>

lemma encode_images_cond:
  assumes "encode_images T a = Inr (image_embeddings, uncond_image_embeddings)"
  shows "select_embeddings (image_encoder a (pixel_values_clip (example a)))
           (image_encoder_layers_idx a) = Inr image_embeddings"
  using assms by (auto simp: encode_images_def Let_def split: sum.splits)

lemma demo_conditioning:
  "conditioning demo_torch demo_args =
     (Inr (([[[0, 0]]], [[[0, 1], [2, 3]], [[0, 2], [3, 3]], [[0, 2], [3, 3]]]),
           ([[[1, 1], [2, 3]], [[1, 2], [3, 3]], [[1, 2], [3, 3]]],
            [[[1, 1], [2, 3]], [[1, 2], [3, 3]], [[1, 2], [3, 3]]])),
      [TextAdapterCall [[[[1, 1], [2, 3]]], [[[1, 2], [3, 3]]], [[[1, 2], [3, 3]]]],
       ImageAdapterCall [[[[1, 1], [2, 3]]], [[[1, 2], [3, 3]]], [[[1, 2], [3, 3]]]],
       ImageAdapterCall [[[[0, 1], [2, 3]]], [[[0, 2], [3, 3]]], [[[0, 2], [3, 3]]]],
       TextEncoderCall [[0, 0]] None,
       TextEncoderCall [[5, 6]]
         (Some ([[[1, 1], [2, 3]], [[1, 2], [3, 3]], [[1, 2], [3, 3]]], [1]))])"
  by (simp add: conditioning_def encode_images_def select_embeddings_def py_index_def py_nth_def
      uncond_ids_def demo_args_def demo_torch_def numeral_2_eq_2)


lemma demo_scheduler_timesteps:
  "keeps_timesteps demo_scheduler" "makes_timesteps demo_scheduler"
  "timesteps_of demo_scheduler (loop_scheduler demo_scheduler demo_args) = [1, 0]"
  by (simp_all add: keeps_timesteps_def makes_timesteps_def demo_scheduler_def loop_scheduler_def
      demo_args_def numeral_2_eq_2)

subsection \<open>C5: gradient tracking\<close>

text \<open>
  C5. In every run that reaches the sampling loop, with a scheduler whose \<^verbatim>\<open>step\<close>
  leaves its timesteps as they are, gradient tracking is set once per step: with
  \<open>training_mode = False\<close> it is disabled at every step, and with
  \<open>training_mode = True\<close> it is enabled at the step of the last index and disabled at
  every earlier one.
\<close>

theorem grad_enabled_only_on_last_step:
  assumes "conditioning T a = (Inr streams, trace0)"
    and "keeps_timesteps api"
  shows "grad_flags (snd (run_inference T api a g)) =
     map (\<lambda>i. training_mode a \<and> Suc i = length (timesteps_of api (loop_scheduler api a)))
       [0..<length (timesteps_of api (loop_scheduler api a))]"
proof -
  obtain uncond cond where s: "streams = (uncond, cond)" by (cases streams)
  let ?steps = "loop_steps T api a (uncond, cond) 0 (timesteps_of api (loop_scheduler api a))
          (loop_scheduler api a) (initial_latents T api a (loop_scheduler api a) g)"
  have tr: "snd (run_inference T api a g) =
      trace0 @ concat (map (step_events (unet a) uncond cond) ?steps)"
    by (rule run_inference_trace[OF assms(1)[unfolded s]])
  have "grad_flags trace0 = []"
    using conditioning_reads(1)[of T a] assms(1) by simp
  then have "grad_flags (snd (run_inference T api a g)) = map fst ?steps"
    by (simp add: tr trace_append step_events_read)
  also have "\<dots> = map (\<lambda>i. training_mode a \<and>
                 int i = int (length (timesteps_of api (loop_scheduler api a))) - 1)
            [0..<0 + length (timesteps_of api (loop_scheduler api a))]"
    by (rule loop_steps_flags[OF assms(2)])
  also have "\<dots> = map (\<lambda>i. training_mode a \<and> Suc i = length (timesteps_of api (loop_scheduler api a)))
       [0..<length (timesteps_of api (loop_scheduler api a))]"
    by (rule map_cong) auto
  finally show ?thesis .
qed

theorem grad_enabled_only_on_last_step_witness:
  "grad_flags (snd (run_inference demo_torch demo_scheduler demo_args 0)) = [False, True]"
proof -
  have t: "training_mode demo_args" by (simp add: demo_args_def)
  have n: "[0..<2] = [0, 1]" by (simp add: upt_rec)
  from grad_enabled_only_on_last_step[OF demo_conditioning demo_scheduler_timesteps(1), of 0]
  show ?thesis by (simp add: demo_scheduler_timesteps(3) t n)
qed

subsection \<open>C9: two evaluations of the denoising network per step\<close>




subsection \<open>C4: the unconditional text stream\<close>

text \<open>
  C4, with the ids that the example may bring. In every run that reaches the sampling
  loop, the unconditional text hidden states are the output of the text encoder, with
  no substitution, on the \<^verbatim>\<open>negative_text_input_ids\<close> of the example when it has
  them, and otherwise on the empty prompt, tokenized to the maximal length, once per
  batch element. The text adapter is called exactly once, on the conditional image
  embeddings.
\<close>

theorem uncond_text_from_base_encoder:
  assumes "conditioning T a = (Inr ((uncond_text, uncond_image), (cond_text, cond_image)), trace0)"
  shows "uncond_ids T a =
       (case negative_text_input_ids (example a) of
          None \<Rightarrow>
            tokenize (tokenizer a) (replicate (shape0 T (pixel_values (example a))) [])
              ''max_length'' (model_max_length (tokenizer a))
        | Some given \<Rightarrow> given) \<and>
     uncond_text = text_encoder a (uncond_ids T a) None \<and>
     (\<exists>image_embeddings concept.
        select_embeddings (image_encoder a (pixel_values_clip (example a)))
          (image_encoder_layers_idx a) = Inr image_embeddings \<and>
        text_adapter a image_embeddings [(''token_index'', token_index a)] = Inr concept \<and>
        text_adapter_calls (snd (run_inference T api a g)) = [image_embeddings] \<and>
        text_encoder_calls (snd (run_inference T api a g)) =
          [(uncond_ids T a, None),
           (text_input_ids (example a), Some (concept, concept_placeholder_idx (example a)))])"
proof -
  obtain image_embeddings uncond_image_embeddings concept where
    e: "encode_images T a = Inr (image_embeddings, uncond_image_embeddings)"
    and c: "text_adapter a image_embeddings [(''token_index'', token_index a)] = Inr concept"
    and u: "uncond_text = text_encoder a (uncond_ids T a) None"
    and t: "trace0 = [TextAdapterCall image_embeddings, ImageAdapterCall image_embeddings,
              ImageAdapterCall uncond_image_embeddings,
              TextEncoderCall (uncond_ids T a) None,
              TextEncoderCall (text_input_ids (example a))
                (Some (concept, concept_placeholder_idx (example a)))]"
    using conditioning_result[OF assms] by blast
  obtain xs where
    tr: "snd (run_inference T api a g) =
           trace0 @ concat (map (step_events (unet a) (uncond_text, uncond_image)
                                   (cond_text, cond_image)) xs)"
    using run_inference_trace[OF assms, of api g] by blast
  have ta: "text_adapter_calls (snd (run_inference T api a g)) = [image_embeddings]"
    unfolding tr trace_append step_events_read by (simp add: t text_adapter_calls_def)
  have te: "text_encoder_calls (snd (run_inference T api a g)) =
      [(uncond_ids T a, None),
       (text_input_ids (example a), Some (concept, concept_placeholder_idx (example a)))]"
    unfolding tr trace_append step_events_read by (simp add: t text_encoder_calls_def)
  have i: "uncond_ids T a =
       (case negative_text_input_ids (example a) of
          None \<Rightarrow>
            tokenize (tokenizer a) (replicate (shape0 T (pixel_values (example a))) [])
              ''max_length'' (model_max_length (tokenizer a))
        | Some given \<Rightarrow> given)"
    by (simp add: uncond_ids_def)
  show ?thesis
    using i u encode_images_cond[OF e] c ta te by blast
qed

theorem uncond_text_from_base_encoder_witness:
  "uncond_ids demo_torch demo_args = [[0, 0]] \<and>
   text_adapter_calls (snd (run_inference demo_torch demo_scheduler demo_args 0)) =
     [[[[[1, 1], [2, 3]]], [[[1, 2], [3, 3]]], [[[1, 2], [3, 3]]]]] \<and>
   text_encoder_calls (snd (run_inference demo_torch demo_scheduler demo_args 0)) =
     [([[0, 0]], None),
      ([[5, 6]], Some ([[[1, 1], [2, 3]], [[1, 2], [3, 3]], [[1, 2], [3, 3]]], [1]))]"
proof -
  have s: "select_embeddings (image_encoder demo_args (pixel_values_clip (example demo_args)))
          (image_encoder_layers_idx demo_args) =
        Inr [[[[1, 1], [2, 3]]], [[[1, 2], [3, 3]]], [[[1, 2], [3, 3]]]]"
    by (simp add: select_embeddings_def py_index_def py_nth_def demo_args_def)
  have i: "uncond_ids demo_torch demo_args = [[0, 0]]"
    by (simp add: uncond_ids_def demo_args_def demo_torch_def numeral_2_eq_2)
  have f: "text_adapter demo_args = (\<lambda>embs kwargs. Inr (concat embs))"
    "text_input_ids (example demo_args) = [[5, 6]]"
    "concept_placeholder_idx (example demo_args) = [1]"
    by (simp_all add: demo_args_def)
  from uncond_text_from_base_encoder[OF demo_conditioning, of demo_scheduler 0]
  show ?thesis unfolding s i f by auto
qed

text \<open>
  An example that brings \<^verbatim>\<open>negative_text_input_ids\<close>: the first call of the text
  encoder gets these, not the ids of the empty prompt.
\<close>

theorem negative_ids_replace_empty_prompt:
  "text_encoder_calls (snd (run_inference demo_torch demo_scheduler
       (demo_args\<lparr>example := (example demo_args)\<lparr>negative_text_input_ids := Some [[7, 7]]\<rparr>\<rparr>) 0)) ! 0 =
     ([[7, 7]], None) \<and>
   tokenize (tokenizer demo_args) (replicate (shape0 demo_torch (pixel_values (example demo_args))) [])
     ''max_length'' (model_max_length (tokenizer demo_args)) = [[0, 0]]"
proof -
  let ?a = "demo_args\<lparr>example := (example demo_args)\<lparr>negative_text_input_ids := Some [[7, 7]]\<rparr>\<rparr>"
  let ?tr = "[TextAdapterCall [[[[1, 1], [2, 3]]], [[[1, 2], [3, 3]]], [[[1, 2], [3, 3]]]],
       ImageAdapterCall [[[[1, 1], [2, 3]]], [[[1, 2], [3, 3]]], [[[1, 2], [3, 3]]]],
       ImageAdapterCall [[[[0, 1], [2, 3]]], [[[0, 2], [3, 3]]], [[[0, 2], [3, 3]]]],
       TextEncoderCall [[7, 7]] None,
       TextEncoderCall [[5, 6]]
         (Some ([[[1, 1], [2, 3]], [[1, 2], [3, 3]], [[1, 2], [3, 3 :: real]]], [1]))]
       :: (real tensor3, real) event list"
  have c: "conditioning demo_torch ?a =
     (Inr (([[[7, 7]]], [[[0, 1], [2, 3]], [[0, 2], [3, 3]], [[0, 2], [3, 3]]]),
           ([[[1, 1], [2, 3]], [[1, 2], [3, 3]], [[1, 2], [3, 3]]],
            [[[1, 1], [2, 3]], [[1, 2], [3, 3]], [[1, 2], [3, 3]]])), ?tr)"
    by (simp add: conditioning_def encode_images_def select_embeddings_def py_index_def py_nth_def
        uncond_ids_def demo_args_def demo_torch_def)
  obtain xs where
    "snd (run_inference demo_torch demo_scheduler ?a 0) =
       ?tr @
       concat (map (step_events (unet ?a)
           ([[[7, 7]]], [[[0, 1], [2, 3]], [[0, 2], [3, 3]], [[0, 2], [3, 3]]])
           ([[[1, 1], [2, 3]], [[1, 2], [3, 3]], [[1, 2], [3, 3]]],
            [[[1, 1], [2, 3]], [[1, 2], [3, 3]], [[1, 2], [3, 3]]])) xs)"
    using run_inference_trace[OF c, of demo_scheduler 0] by blast
  then have "text_encoder_calls (snd (run_inference demo_torch demo_scheduler ?a 0)) ! 0 =
     ([[7, 7]], None)"
    by (simp add: trace_append step_events_read) (simp add: text_encoder_calls_def)
  moreover have "tokenize (tokenizer demo_args)
      (replicate (shape0 demo_torch (pixel_values (example demo_args))) [])
     ''max_length'' (model_max_length (tokenizer demo_args)) = [[0, 0]]"
    by (simp add: demo_args_def demo_torch_def numeral_2_eq_2)
  ultimately show ?thesis by simp
qed

end
